theory Spec2Isabelle
  imports Main "HOL-Library.Word" "HOL-Library.List_Lexorder" "HOL-Library.Char_ord"
begin

section \<open>Values of the ssh package (src/ssh/ssh.go)\<close>

text \<open>
  A Go \<open>error\<close> value. \<open>fmt.Errorf(format, args...)\<close> is kept as the format and its
  arguments, not rendered: the last call of \<open>RemoteSSHCommand\<close> splices \<open>cmd\<close> into the
  format itself, so the rendered text depends on the verbs \<open>cmd\<close> may contain.
  An error made by a library is \<open>LibError\<close> with its message. \<open>nil\<close> is \<open>None\<close> of
  \<open>error option\<close>.
\<close>

datatype error = LibError string | Errorf string "fmtarg list"
  and fmtarg = Str string | Err error

text \<open>Handles of golang.org/x/crypto/ssh and of io, opaque to this package.\<close>

datatype Signer = Signer nat
datatype Client = Client nat
datatype Session = Session nat
datatype stream = OsStdin | OsStdout | OsStderr | Pipe nat

text \<open>
  \<open>ssh.AuthMethod\<close> is an interface: \<open>nil\<close> is \<open>None\<close>, and \<open>ssh.PublicKeys(key)\<close> is
  the one implementation this package builds.
\<close>

datatype AuthMethod = PublicKeys Signer

text \<open>
  \<open>ssh.ClientConfig\<close>, by the fields that matter here. The composite literal of
  \<open>RemoteSSHCommand\<close> names \<open>User\<close> and \<open>Auth\<close> only; Go gives every other field its zero
  value, among them \<open>Timeout\<close> (a \<open>time.Duration\<close>, an int64 of nanoseconds), which
  the library documents as: the maximum time for the TCP connection to establish, zero
  meaning no timeout.
\<close>

record ClientConfig =
  User :: string
  Auth :: "AuthMethod option list"
  Timeout :: "64 word"

text \<open>The keys of \<open>ssh.TerminalModes\<close> (a \<open>map[uint8]uint32\<close>) the source names.\<close>

datatype opcode = TTY_OP_ISPEED | TTY_OP_OSPEED

type_synonym TerminalModes = "opcode \<rightharpoonup> 32 word"

section \<open>The transcript of a call\<close>

text \<open>
  Everything \<open>RemoteSSHCommand\<close> does to the outside, in program order: each library
  call with its arguments and the reply it got, each log line, each goroutine started.
  The logger (\<open>log.Info\<close> of the repository's own \<open>log\<close> package) is not among the
  sources: a log line is recorded with its format and arguments, and nothing is assumed
  about what the logger prints.
  \<open>RequestPty\<close> has the library's parameters \<open>(term string, h, w int, termmodes)\<close>:
  the first number is the height in rows, the second the width in columns.
\<close>

datatype event =
    LogInfo string "fmtarg list"
  | EvReadFile string "error + string"
  | EvParsePrivateKey string "error + Signer"
  | EvDial string string ClientConfig "error + Client"
  | EvNewSession Client "error + Session"
  | EvRequestPty Session string int int TerminalModes "error option"
  | EvStdinPipe Session "error + stream"
  | EvStdoutPipe Session "error + stream"
  | EvStderrPipe Session "error + stream"
  | GoCopy stream stream
  | EvSetenv Session string string "error option"
  | EvRun Session string "error option"
  | EvClose Session

section \<open>The libraries, as a parameter\<close>

text \<open>
  The code of \<open>io/ioutil\<close>, \<open>net\<close> and \<open>golang.org/x/crypto/ssh\<close> is not part of the
  package. Each call is a field of this record: it reads the state of the world
  (network, remote host, file system) and returns its reply with the world after it.
  Nothing is assumed about the fields, so a theorem about every \<open>L\<close> and every world
  holds whatever the libraries and the remote host do, provided the calls return.
\<close>

record 'w sshlib =
  JoinHostPort :: "string \<Rightarrow> string \<Rightarrow> string"
  ReadFile :: "string \<Rightarrow> 'w \<Rightarrow> (error + string) \<times> 'w"
  ParsePrivateKey :: "string \<Rightarrow> error + Signer"
  Dial :: "string \<Rightarrow> string \<Rightarrow> ClientConfig \<Rightarrow> 'w \<Rightarrow> (error + Client) \<times> 'w"
  NewSession :: "Client \<Rightarrow> 'w \<Rightarrow> (error + Session) \<times> 'w"
  RequestPty :: "Session \<Rightarrow> string \<Rightarrow> int \<Rightarrow> int \<Rightarrow> TerminalModes \<Rightarrow> 'w \<Rightarrow> error option \<times> 'w"
  StdinPipe :: "Session \<Rightarrow> 'w \<Rightarrow> (error + stream) \<times> 'w"
  StdoutPipe :: "Session \<Rightarrow> 'w \<Rightarrow> (error + stream) \<times> 'w"
  StderrPipe :: "Session \<Rightarrow> 'w \<Rightarrow> (error + stream) \<times> 'w"
  Spawn :: "stream \<Rightarrow> stream \<Rightarrow> 'w \<Rightarrow> 'w"
  Setenv :: "Session \<Rightarrow> string \<Rightarrow> string \<Rightarrow> 'w \<Rightarrow> error option \<times> 'w"
  Run :: "Session \<Rightarrow> string \<Rightarrow> 'w \<Rightarrow> error option \<times> 'w"

section \<open>PublicKeyFile (ssh.go, lines 101-113)\<close>

text \<open>
  Returns the auth method, the transcript of its calls and the world after them. Both
  failures return \<open>nil\<close>; the error is dropped.
\<close>

definition PublicKeyFile ::
  "'w sshlib \<Rightarrow> string \<Rightarrow> 'w \<Rightarrow> AuthMethod option \<times> event list \<times> 'w" where
  "PublicKeyFile L file w =
     (case ReadFile L file w of
        (Inl err, w1) \<Rightarrow> (None, [EvReadFile file (Inl err)], w1)
      | (Inr buffer, w1) \<Rightarrow>
          (case ParsePrivateKey L buffer of
             Inl err \<Rightarrow>
               (None, [EvReadFile file (Inr buffer), EvParsePrivateKey buffer (Inl err)], w1)
           | Inr key \<Rightarrow>
               (Some (PublicKeys key),
                [EvReadFile file (Inr buffer), EvParsePrivateKey buffer (Inr key)], w1)))"

section \<open>RemoteSSHCommand (ssh.go, lines 31-99)\<close>

text \<open>The terminal modes of lines 58-62.\<close>

definition modes :: TerminalModes where
  "modes = [TTY_OP_ISPEED \<mapsto> 14400, TTY_OP_OSPEED \<mapsto> 14400]"

text \<open>
  The loop of lines 86-91 over \<open>envVars\<close>. A Go map is ranged over in an order the
  runtime picks: \<open>envVars\<close> is here the list of the map's entries in the order of this
  run, and the theorems hold for every order. The loop stops at the first \<open>Setenv\<close> that
  fails, with the error to return.
\<close>

definition setenv_error :: "string \<Rightarrow> string \<Rightarrow> error \<Rightarrow> error" where
  "setenv_error envName envValue err =
     Errorf (''Could not set environment variable %s = %s over SSH. This could be disabled by the sshd configuration. ''
             @ ''See the `AcceptEnv` setting in your /etc/ssh/sshd_config more info: http://linux.die.net/man/5/sshd_config . Error: %s'')
       [Str envName, Str envValue, Err err]"

fun setenv_loop ::
  "'w sshlib \<Rightarrow> Session \<Rightarrow> (string \<times> string) list \<Rightarrow> 'w \<Rightarrow> error option \<times> event list \<times> 'w" where
  "setenv_loop L session [] w = (None, [], w)"
| "setenv_loop L session ((envName, envValue) # rest) w =
     (case Setenv L session envName envValue w of
        (Some err, w1) \<Rightarrow>
          (Some (setenv_error envName envValue err),
           [LogInfo ''Setting environment value %s = %s'' [Str envName, Str envValue],
            EvSetenv session envName envValue (Some err)], w1)
      | (None, w1) \<Rightarrow>
          (case setenv_loop L session rest w1 of
             (r, t, w2) \<Rightarrow>
               (r, [LogInfo ''Setting environment value %s = %s'' [Str envName, Str envValue],
                    EvSetenv session envName envValue None] @ t, w2)))"

text \<open>
  Lines 58-98: what runs between \<open>defer session.Close()\<close> and the return. The result is
  the error returned and the transcript of these lines.
\<close>

definition session_body ::
  "'w sshlib \<Rightarrow> Session \<Rightarrow> string \<Rightarrow> (string \<times> string) list \<Rightarrow> 'w \<Rightarrow> error option \<times> event list" where
  "session_body L session cmd envVars w0 =
     (case RequestPty L session ''xterm'' 80 40 modes w0 of
        (Some err, w1) \<Rightarrow>
          (Some (Errorf ''Request for pseudo terminal failed: %s'' [Err err]),
           [EvRequestPty session ''xterm'' 80 40 modes (Some err)])
      | (None, w1) \<Rightarrow>
     (let t1 = [EvRequestPty session ''xterm'' 80 40 modes None] in
      case StdinPipe L session w1 of
        (Inl err, w2) \<Rightarrow>
          (Some (Errorf ''Unable to setup stdin for session: %v'' [Err err]),
           t1 @ [EvStdinPipe session (Inl err)])
      | (Inr stdin, w2) \<Rightarrow>
     (let t2 = t1 @ [EvStdinPipe session (Inr stdin), GoCopy stdin OsStdin];
          w3 = Spawn L stdin OsStdin w2 in
      case StdoutPipe L session w3 of
        (Inl err, w4) \<Rightarrow>
          (Some (Errorf ''Unable to setup stdout for session: %v'' [Err err]),
           t2 @ [EvStdoutPipe session (Inl err)])
      | (Inr stdout, w4) \<Rightarrow>
     (let t3 = t2 @ [EvStdoutPipe session (Inr stdout), GoCopy OsStdout stdout];
          w5 = Spawn L OsStdout stdout w4 in
      case StderrPipe L session w5 of
        (Inl err, w6) \<Rightarrow>
          (Some (Errorf ''Unable to setup stderr for session: %v'' [Err err]),
           t3 @ [EvStderrPipe session (Inl err)])
      | (Inr stderr, w6) \<Rightarrow>
     (let t4 = t3 @ [EvStderrPipe session (Inr stderr), GoCopy OsStderr stderr];
          w7 = Spawn L OsStderr stderr w6 in
      case setenv_loop L session envVars w7 of
        (Some err, t, w8) \<Rightarrow> (Some err, t4 @ t)
      | (None, t, w8) \<Rightarrow>
     (let t5 = t4 @ t @ [LogInfo ''Running command %s'' [Str cmd]] in
      case Run L session cmd w8 of
        (Some err, w9) \<Rightarrow>
          (Some (Errorf (''Failed to run command: '' @ cmd @ '': %v'') [Err err]),
           t5 @ [EvRun session cmd (Some err)])
      | (None, w9) \<Rightarrow> (None, t5 @ [EvRun session cmd None])))))))"

text \<open>
  The whole function. \<open>sshConfig\<close> is the address of a composite literal and is never
  \<open>nil\<close>, so the warning of lines 45-47 cannot be logged. The deferred
  \<open>session.Close()\<close> runs on every return after line 56; the connection itself is
  never closed.
\<close>

definition RemoteSSHCommand ::
  "'w sshlib \<Rightarrow> string \<Rightarrow> string \<Rightarrow> string \<Rightarrow> string \<Rightarrow> string \<Rightarrow> (string \<times> string) list \<Rightarrow> 'w
     \<Rightarrow> error option \<times> event list" where
  "RemoteSSHCommand L user privateKey host port cmd envVars w0 =
     (if length privateKey = 0
      then (Some (Errorf ''Could not find PrivateKey for entry %s'' [Str host]), [])
      else
       (let t0 = [LogInfo ''Connecting to host over SSH on host %s and port %d with user %s with command `%s`''
                    [Str host, Str port, Str user, Str cmd]];
            hostPort = JoinHostPort L host port in
        case PublicKeyFile L privateKey w0 of (auth, tk, w1) \<Rightarrow>
       (let sshConfig = \<lparr>User = user, Auth = [auth], Timeout = 0\<rparr>;
            t1 = t0 @ tk in
        case Dial L ''tcp'' hostPort sshConfig w1 of
          (Inl err, w2) \<Rightarrow>
            (Some (Errorf ''Failed to dial: %s'' [Err err]),
             t1 @ [EvDial ''tcp'' hostPort sshConfig (Inl err)])
        | (Inr connection, w2) \<Rightarrow>
       (let t2 = t1 @ [EvDial ''tcp'' hostPort sshConfig (Inr connection)] in
        case NewSession L connection w2 of
          (Inl err, w3) \<Rightarrow>
            (Some (Errorf ''Failed to create session: %s'' [Err err]),
             t2 @ [EvNewSession connection (Inl err)])
        | (Inr session, w3) \<Rightarrow>
            (case session_body L session cmd envVars w3 of
               (r, t) \<Rightarrow> (r, t2 @ [EvNewSession connection (Inr session)] @ t @ [EvClose session]))))))"

section \<open>Reading a transcript\<close>

text \<open>
  The calls of one kind in a transcript, in the order they were made: the configurations
  dialled with, the commands run, the variables set (each with its session and its reply),
  and the pseudo-terminals requested, as \<open>(term, h, w)\<close>: terminal type, height in rows,
  width in columns.
\<close>

fun dial_configs :: "event list \<Rightarrow> ClientConfig list" where
  "dial_configs [] = []"
| "dial_configs (EvDial network addr config reply # t) = config # dial_configs t"
| "dial_configs (_ # t) = dial_configs t"

fun run_calls :: "event list \<Rightarrow> (Session \<times> string \<times> error option) list" where
  "run_calls [] = []"
| "run_calls (EvRun session cmd reply # t) = (session, cmd, reply) # run_calls t"
| "run_calls (_ # t) = run_calls t"

fun setenv_calls :: "event list \<Rightarrow> (Session \<times> string \<times> string \<times> error option) list" where
  "setenv_calls [] = []"
| "setenv_calls (EvSetenv session envName envValue reply # t) =
     (session, envName, envValue, reply) # setenv_calls t"
| "setenv_calls (_ # t) = setenv_calls t"

fun pty_requests :: "event list \<Rightarrow> (string \<times> int \<times> int) list" where
  "pty_requests [] = []"
| "pty_requests (EvRequestPty session term h w termmodes reply # t) = (term, h, w) # pty_requests t"
| "pty_requests (_ # t) = pty_requests t"


text \<open>The part of a transcript that precedes the first \<open>Run\<close>.\<close>

fun is_run :: "event \<Rightarrow> bool" where
  "is_run (EvRun session cmd reply) = True"
| "is_run _ = False"

definition before_run :: "event list \<Rightarrow> event list" where
  "before_run tr = takeWhile (\<lambda>e. \<not> is_run e) tr"

text \<open>The part of a transcript that follows the first \<open>Run\<close>.\<close>

definition after_run :: "event list \<Rightarrow> event list" where
  "after_run tr = drop 1 (dropWhile (\<lambda>e. \<not> is_run e) tr)"

text \<open>
  The goroutines started, in order: each \<open>go io.Copy(dst, src)\<close> as \<open>(dst, src)\<close>.
\<close>

fun copy_tasks :: "event list \<Rightarrow> (stream \<times> stream) list" where
  "copy_tasks [] = []"
| "copy_tasks (GoCopy dst src # t) = (dst, src) # copy_tasks t"
| "copy_tasks (_ # t) = copy_tasks t"


text \<open>
  The kinds of event each part of the function can add to the transcript: reading the key
  file; the loop over \<open>envVars\<close>; the set-up of lines 58-84 on session \<open>s\<close>; anything of
  lines 58-98.
\<close>

fun key_event :: "event \<Rightarrow> bool" where
  "key_event (EvReadFile file reply) = True"
| "key_event (EvParsePrivateKey buffer reply) = True"
| "key_event _ = False"

fun env_event :: "Session \<Rightarrow> event \<Rightarrow> bool" where
  "env_event s (LogInfo format args) = True"
| "env_event s (EvSetenv session envName envValue reply) = (session = s)"
| "env_event s _ = False"

fun setup_event :: "Session \<Rightarrow> event \<Rightarrow> bool" where
  "setup_event s (EvRequestPty session term h w termmodes reply) =
     (session = s \<and> term = ''xterm'' \<and> h = 80 \<and> w = 40 \<and> termmodes = modes)"
| "setup_event s (EvStdinPipe session reply) = (session = s)"
| "setup_event s (EvStdoutPipe session reply) = (session = s)"
| "setup_event s (EvStderrPipe session reply) = (session = s)"
| "setup_event s (GoCopy dst src) = True"
| "setup_event s _ = False"

fun body_event :: "Session \<Rightarrow> event \<Rightarrow> bool" where
  "body_event s (LogInfo format args) = True"
| "body_event s (EvRequestPty session term h w termmodes reply) = (session = s)"
| "body_event s (EvStdinPipe session reply) = (session = s)"
| "body_event s (EvStdoutPipe session reply) = (session = s)"
| "body_event s (EvStderrPipe session reply) = (session = s)"
| "body_event s (GoCopy dst src) = True"
| "body_event s (EvSetenv session envName envValue reply) = (session = s)"
| "body_event s (EvRun session cmd reply) = (session = s)"
| "body_event s _ = False"


text \<open>
  The transcript of lines 58-84 when every call succeeds, the first log line of the
  function, and the value returned after \<open>Run\<close> (lines 94-98).
\<close>

definition setup_events :: "Session \<Rightarrow> stream \<Rightarrow> stream \<Rightarrow> stream \<Rightarrow> event list" where
  "setup_events s stdin stdout stderr =
     [EvRequestPty s ''xterm'' 80 40 modes None,
      EvStdinPipe s (Inr stdin), GoCopy stdin OsStdin,
      EvStdoutPipe s (Inr stdout), GoCopy OsStdout stdout,
      EvStderrPipe s (Inr stderr), GoCopy OsStderr stderr]"

definition connecting_log :: "string \<Rightarrow> string \<Rightarrow> string \<Rightarrow> string \<Rightarrow> event" where
  "connecting_log host port user cmd =
     LogInfo ''Connecting to host over SSH on host %s and port %d with user %s with command `%s`''
       [Str host, Str port, Str user, Str cmd]"

definition run_result :: "string \<Rightarrow> error option \<Rightarrow> error option" where
  "run_result cmd reply =
     (case reply of None \<Rightarrow> None
      | Some err \<Rightarrow> Some (Errorf (''Failed to run command: '' @ cmd @ '': %v'') [Err err]))"


section \<open>Libraries for concrete runs\<close>

text \<open>
  A reachable host that accepts the key, refuses the variable \<open>DENIED\<close> and on which the
  command \<open>false\<close> exits with status 1; then the same with a dial that fails, a session
  that is refused, and a session that breaks while the command runs.
\<close>

definition lib_ok :: "unit sshlib" where
  "lib_ok =
     \<lparr>JoinHostPort = (\<lambda>host port. host @ '':'' @ port),
      ReadFile = (\<lambda>file w. (Inr ''KEY'', w)),
      ParsePrivateKey = (\<lambda>buffer. Inr (Signer 1)),
      Dial = (\<lambda>network addr config w. (Inr (Client 1), w)),
      NewSession = (\<lambda>connection w. (Inr (Session 1), w)),
      RequestPty = (\<lambda>session term h wd termmodes w. (None, w)),
      StdinPipe = (\<lambda>session w. (Inr (Pipe 0), w)),
      StdoutPipe = (\<lambda>session w. (Inr (Pipe 1), w)),
      StderrPipe = (\<lambda>session w. (Inr (Pipe 2), w)),
      Spawn = (\<lambda>dst src w. w),
      Setenv = (\<lambda>session envName envValue w.
                  (if envName = ''DENIED'' then Some (LibError ''ssh: setenv failed'') else None, w)),
      Run = (\<lambda>session cmd w.
                  (if cmd = ''false'' then Some (LibError ''Process exited with status 1'') else None, w))\<rparr>"

definition lib_dial_fails :: "unit sshlib" where
  "lib_dial_fails = lib_ok\<lparr>Dial := \<lambda>network addr config w. (Inl (LibError ''ssh: handshake failed''), w)\<rparr>"

definition lib_session_fails :: "unit sshlib" where
  "lib_session_fails = lib_ok\<lparr>NewSession := \<lambda>connection w. (Inl (LibError ''ssh: rejected''), w)\<rparr>"

definition lib_session_breaks :: "unit sshlib" where
  "lib_session_breaks =
     lib_ok\<lparr>Run := \<lambda>session cmd w.
       (Some (LibError ''wait: remote command exited without exit status or exit signal''), w)\<rparr>"

text \<open>
  A key file that is missing, and a key file that does not parse, each on a host that
  refuses the connection: there \<open>ssh.Dial\<close> returns the error of the TCP connect and never
  looks at the auth methods. Where a server answers and asks for authentication, the
  library calls a method of each entry of \<open>Auth\<close> and panics on the \<open>nil\<close> entry that
  \<open>PublicKeyFile\<close> left there; a panic is no reply of \<open>Dial\<close>, so no library of this model
  stands for that run.
\<close>

definition lib_key_missing :: "unit sshlib" where
  "lib_key_missing =
     lib_ok\<lparr>ReadFile := \<lambda>file w. (Inl (LibError ''open: no such file or directory''), w),
            Dial := \<lambda>network addr config w. (Inl (LibError ''dial tcp: connection refused''), w)\<rparr>"

definition lib_key_garbled :: "unit sshlib" where
  "lib_key_garbled =
     lib_ok\<lparr>ParsePrivateKey := \<lambda>buffer. Inl (LibError ''ssh: no key found''),
            Dial := \<lambda>network addr config w. (Inl (LibError ''dial tcp: connection refused''), w)\<rparr>"

section \<open>The host-claim protocol\<close>

text \<open>
  The code of HostClaimer, ClaimStore and StatusReporter is not among the sources of the
  package; the definitions of this section follow sections 3, 4 and 5 of the
  specification. Workers are interleaved at the grain of the store's operations, which
  the specification requires to be atomic for each key.
\<close>

text \<open>
  Modelled from the spec: the name of a HostEntry (section 3), the key of the inventory
  and of the ClaimStore; InventoryModel is missing from the sources.
\<close>

type_synonym hostName = string

text \<open>
  Modelled from the spec: the identity of a worker (\<open>ownerId\<close>, section 3); HostClaimer is
  missing from the sources.
\<close>

type_synonym workerId = nat

text \<open>
  Modelled from the spec: the states of a Claim (section 3); ClaimStore is missing from the
  sources.
\<close>

datatype claimState = Claiming | Running | Failed | Released


text \<open>
  Modelled from the spec: the Claim record of section 3 (HostClaimer and ClaimStore are
  missing from the sources). \<open>lastHeartbeat\<close> is a time stamp in ticks of one clock.
\<close>

record Claim =
  ownerId :: workerId
  state :: claimState
  lastHeartbeat :: nat


text \<open>
  Modelled from the spec: the ClaimStore of section 4.3, missing from the sources: a
  mapping from host name to Claim, with no entry (\<open>None\<close>) for a host never claimed.
\<close>

type_synonym ClaimStore = "hostName \<Rightarrow> Claim option"


text \<open>
  Modelled from the spec: the two outcomes of \<open>ConditionalWrite\<close> (section 4.3, ClaimStore
  is missing from the sources).
\<close>

datatype writeResult = Success | Conflict


text \<open>
  Modelled from the spec: \<open>ReadAll\<close> of the missing ClaimStore (section 4.3), the whole
  mapping as it stands.
\<close>

definition ReadAll :: "ClaimStore \<Rightarrow> ClaimStore" where
  "ReadAll store = store"


text \<open>
  Modelled from the spec: \<open>ConditionalWrite(hostName, expectedPrior, newClaim)\<close> of the
  missing ClaimStore (section 4.3). It writes only when the stored value is the expected
  one and reports a conflict otherwise, leaving the store as it was.
\<close>

definition ConditionalWrite ::
  "ClaimStore \<Rightarrow> hostName \<Rightarrow> Claim option \<Rightarrow> Claim \<Rightarrow> writeResult \<times> ClaimStore" where
  "ConditionalWrite store hostName expectedPrior newClaim =
     (if store hostName = expectedPrior then (Success, store(hostName \<mapsto> newClaim))
      else (Conflict, store))"


text \<open>
  Modelled from the spec: staleness (the glossary and step 2 of section 4.1; HostClaimer is
  missing from the sources), a heartbeat older than the threshold \<open>T_stale\<close>.
\<close>

definition stale :: "nat \<Rightarrow> nat \<Rightarrow> Claim \<Rightarrow> bool" where
  "stale T_stale now c = (lastHeartbeat c + T_stale < now)"


text \<open>
  Modelled from the spec: the live claims of the invariant of section 3 (the code that
  keeps it is missing from the sources), those in state Claiming or Running whose
  heartbeat is not stale.
\<close>

definition live :: "nat \<Rightarrow> nat \<Rightarrow> Claim \<Rightarrow> bool" where
  "live T_stale now c = ((state c = Claiming \<or> state c = Running) \<and> \<not> stale T_stale now c)"


text \<open>
  Modelled from the spec: step 2 of \<open>AcquireHost\<close> (section 4.1, HostClaimer is missing
  from the sources). A host can be claimed when it has no claim or a stale one, or when
  its claim is Released, which section 3 makes eligible for reclaim.
\<close>

definition claimable :: "nat \<Rightarrow> nat \<Rightarrow> ClaimStore \<Rightarrow> hostName \<Rightarrow> bool" where
  "claimable T_stale now claims h =
     (case claims h of None \<Rightarrow> True
      | Some c \<Rightarrow> stale T_stale now c \<or> state c = Released)"


text \<open>
  Modelled from the spec: steps 2 and 3 of \<open>AcquireHost\<close> (section 4.1, HostClaimer is
  missing from the sources), the hosts of the inventory that can be claimed, ordered by
  host name.
\<close>

definition candidates :: "nat \<Rightarrow> nat \<Rightarrow> hostName list \<Rightarrow> ClaimStore \<Rightarrow> hostName list" where
  "candidates T_stale now inventory claims = sort (filter (claimable T_stale now claims) inventory)"


text \<open>
  Modelled from the spec: what a worker knows between two operations on the store
  (HostClaimer and ProcessSupervisor are missing from the sources). It is idle; or it is
  inside \<open>AcquireHost\<close> with the claims it read in step 1 and the candidates it has not
  tried yet; or it holds a host, with the Claim it wrote last (the Claim of its
  SupervisorSession).
\<close>

datatype worker = Idle | Trying ClaimStore "hostName list" | Holding hostName Claim


text \<open>
  Modelled from the spec: the shared store, the clock and the workers (section 5; all
  missing from the sources), any number of workers, each named by its \<open>ownerId\<close>.
\<close>

record cluster =
  store :: ClaimStore
  now :: nat
  workers :: "workerId \<Rightarrow> worker"


text \<open>
  Modelled from the spec: the start of the missing system, an empty store at time 0 with
  every worker idle.
\<close>

definition cluster0 :: cluster where
  "cluster0 = \<lparr>store = (\<lambda>h. None), now = 0, workers = (\<lambda>w. Idle)\<rparr>"


text \<open>
  Modelled from the spec: the atomic steps of the missing HostClaimer, StatusReporter and
  ProcessSupervisor. \<open>Tick\<close>: time passes. \<open>Read w\<close>: steps 1 to 3 of \<open>AcquireHost\<close> by an
  idle worker. \<open>Try w\<close>: step 4 for the next candidate, or step 5 when none is left.
  \<open>Report w st\<close>: the heartbeat of section 4.4 and the state changes of section 4.2.
  \<open>Crash w\<close>: the worker dies, or is rescheduled, without writing anything.
\<close>

datatype action =
    Tick
  | Read workerId
  | Try workerId
  | Report workerId claimState
  | Crash workerId


text \<open>
  Modelled from the spec: one step of the missing HostClaimer (section 4.1), StatusReporter
  (section 4.4) and ProcessSupervisor (section 4.2). \<open>Try\<close> is a conditional write of
  \<open>Claim{ownerId: workerId, state: Claiming, lastHeartbeat: now}\<close> against the value read
  in step 1; the first success holds the host, a conflict moves on to the next candidate,
  and with no candidate left the call fails with NoHostAvailable and the worker is idle
  again. \<open>Report\<close> is a conditional write of the held claim with state \<open>st\<close> and a fresh
  heartbeat, expecting the claim this worker wrote last; a conflict is ClaimLost and the
  worker abandons the host, and after writing Failed or Released it no longer holds it.
  A step a worker cannot take in its present state changes nothing.
\<close>

fun step :: "nat \<Rightarrow> hostName list \<Rightarrow> cluster \<Rightarrow> action \<Rightarrow> cluster" where
  "step T inventory s Tick = s\<lparr>now := Suc (now s)\<rparr>"
| "step T inventory s (Read w) =
     (case workers s w of
        Idle \<Rightarrow>
          (let claims = ReadAll (store s)
           in s\<lparr>workers := (workers s)(w := Trying claims (candidates T (now s) inventory claims))\<rparr>)
      | _ \<Rightarrow> s)"
| "step T inventory s (Try w) =
     (case workers s w of
        Trying claims [] \<Rightarrow> s\<lparr>workers := (workers s)(w := Idle)\<rparr>
      | Trying claims (h # rest) \<Rightarrow>
          (let new = \<lparr>ownerId = w, state = Claiming, lastHeartbeat = now s\<rparr>
           in case ConditionalWrite (store s) h (claims h) new of
                (Success, store') \<Rightarrow> s\<lparr>store := store', workers := (workers s)(w := Holding h new)\<rparr>
              | (Conflict, store') \<Rightarrow> s\<lparr>workers := (workers s)(w := Trying claims rest)\<rparr>)
      | _ \<Rightarrow> s)"
| "step T inventory s (Report w st) =
     (case workers s w of
        Holding h c \<Rightarrow>
          (let new = c\<lparr>state := st, lastHeartbeat := now s\<rparr>
           in case ConditionalWrite (store s) h (Some c) new of
                (Success, store') \<Rightarrow>
                  s\<lparr>store := store',
                    workers := (workers s)
                      (w := if st = Claiming \<or> st = Running then Holding h new else Idle)\<rparr>
              | (Conflict, store') \<Rightarrow> s\<lparr>workers := (workers s)(w := Idle)\<rparr>)
      | _ \<Rightarrow> s)"
| "step T inventory s (Crash w) = s\<lparr>workers := (workers s)(w := Idle)\<rparr>"


text \<open>
  Modelled from the spec: a run of the missing system under a schedule, the list of the
  steps taken in the order the store saw them (section 5: workers are uncoordinated except
  through the store's atomicity for each key).
\<close>

definition exec :: "nat \<Rightarrow> hostName list \<Rightarrow> action list \<Rightarrow> cluster" where
  "exec T inventory acts = foldl (step T inventory) cluster0 acts"


text \<open>
  The invariant of a run, worker by worker: no candidate left to try had a live claim
  when it was read; a held claim names its holder, and while it is live it is the claim
  in the store.
\<close>

definition worker_ok :: "nat \<Rightarrow> cluster \<Rightarrow> workerId \<Rightarrow> bool" where
  "worker_ok T s w =
     (case workers s w of
        Idle \<Rightarrow> True
      | Trying claims cands \<Rightarrow>
          (\<forall>h \<in> set cands. \<forall>c. claims h = Some c \<longrightarrow> \<not> live T (now s) c)
      | Holding h c \<Rightarrow> ownerId c = w \<and> (live T (now s) c \<longrightarrow> store s h = Some c))"

definition inv_ok :: "nat \<Rightarrow> cluster \<Rightarrow> bool" where
  "inv_ok T s = (\<forall>w. worker_ok T s w)"


text \<open>
  A schedule in which worker 1 claims a host and stops reporting, and worker 2 takes the
  host over once the claim is stale.
\<close>

definition takeover :: "action list" where
  "takeover = [Read 1, Try 1, Tick, Tick, Tick, Read 2, Try 2]"


section \<open>Lemmas on transcripts\<close>

lemma dial_configs_append: "dial_configs (a @ b) = dial_configs a @ dial_configs b"
  by (induction a rule: dial_configs.induct) simp_all

lemma run_calls_append: "run_calls (a @ b) = run_calls a @ run_calls b"
  by (induction a rule: run_calls.induct) simp_all

lemma setenv_calls_append: "setenv_calls (a @ b) = setenv_calls a @ setenv_calls b"
  by (induction a rule: setenv_calls.induct) simp_all

lemma pty_requests_append: "pty_requests (a @ b) = pty_requests a @ pty_requests b"
  by (induction a rule: pty_requests.induct) simp_all

lemma key_event_dial: "list_all key_event t \<Longrightarrow> dial_configs t = []"
  by (induction t rule: dial_configs.induct) simp_all

lemma key_event_run: "list_all key_event t \<Longrightarrow> run_calls t = []"
  by (induction t rule: run_calls.induct) simp_all

lemma key_event_setenv: "list_all key_event t \<Longrightarrow> setenv_calls t = []"
  by (induction t rule: setenv_calls.induct) simp_all

lemma key_event_pty: "list_all key_event t \<Longrightarrow> pty_requests t = []"
  by (induction t rule: pty_requests.induct) simp_all

lemma key_event_no_dial: "list_all key_event t \<Longrightarrow> EvDial network addr config reply \<notin> set t"
  by (induction t) auto

lemma key_event_no_session: "list_all key_event t \<Longrightarrow> EvNewSession connection reply \<notin> set t"
  by (induction t) auto

lemma key_event_no_run: "list_all key_event t \<Longrightarrow> EvRun s c reply \<notin> set t"
  by (induction t) auto

lemma key_event_no_setenv: "list_all key_event t \<Longrightarrow> EvSetenv s n v reply \<notin> set t"
  by (induction t) auto

lemma env_event_run: "list_all (env_event s) t \<Longrightarrow> run_calls t = []"
  by (induction t rule: run_calls.induct) simp_all

lemma env_event_pty: "list_all (env_event s) t \<Longrightarrow> pty_requests t = []"
  by (induction t rule: pty_requests.induct) simp_all

lemma env_event_no_run: "list_all (env_event s) t \<Longrightarrow> EvRun s' c reply \<notin> set t"
  by (induction t) auto

lemma setup_event_run: "list_all (setup_event s) t \<Longrightarrow> run_calls t = []"
  by (induction t rule: run_calls.induct) simp_all

lemma setup_event_setenv: "list_all (setup_event s) t \<Longrightarrow> setenv_calls t = []"
  by (induction t rule: setenv_calls.induct) simp_all

lemma setup_event_no_run: "list_all (setup_event s) t \<Longrightarrow> EvRun s' c reply \<notin> set t"
  by (induction t) auto

lemma setup_event_no_setenv: "list_all (setup_event s) t \<Longrightarrow> EvSetenv s' n v reply \<notin> set t"
  by (induction t) auto

lemma body_event_dial: "list_all (body_event s) t \<Longrightarrow> dial_configs t = []"
  by (induction t rule: dial_configs.induct) simp_all

lemma body_event_no_dial: "list_all (body_event s) t \<Longrightarrow> EvDial network addr config reply \<notin> set t"
  by (induction t) auto

lemma body_event_no_session: "list_all (body_event s) t \<Longrightarrow> EvNewSession connection reply \<notin> set t"
  by (induction t) auto

lemma setup_event_body: "setup_event s e \<Longrightarrow> body_event s e"
  by (cases e) simp_all

lemma env_event_body: "env_event s e \<Longrightarrow> body_event s e"
  by (cases e) simp_all

lemma list_all_body_setup: "list_all (setup_event s) t \<Longrightarrow> list_all (body_event s) t"
  by (induction t) (auto dest: setup_event_body)

lemma list_all_body_env: "list_all (env_event s) t \<Longrightarrow> list_all (body_event s) t"
  by (induction t) (auto dest: env_event_body)

lemma setup_events_setup: "list_all (setup_event s) (setup_events s stdin stdout stderr)"
  by (simp add: setup_events_def)

lemma before_run_split: "run_calls pre = [] \<Longrightarrow> before_run (pre @ EvRun s c r # post) = pre"
  unfolding before_run_def
  by (induction pre rule: run_calls.induct) simp_all

lemma connecting_log_simps [simp]:
  "connecting_log host port user cmd \<noteq> EvDial network addr config reply"
  "connecting_log host port user cmd \<noteq> EvNewSession connection sreply"
  "connecting_log host port user cmd \<noteq> EvRun s c rreply"
  "connecting_log host port user cmd \<noteq> EvSetenv s n v ereply"
  "EvDial network addr config reply \<noteq> connecting_log host port user cmd"
  "EvNewSession connection sreply \<noteq> connecting_log host port user cmd"
  "EvRun s c rreply \<noteq> connecting_log host port user cmd"
  "EvSetenv s n v ereply \<noteq> connecting_log host port user cmd"
  "run_calls (connecting_log host port user cmd # t) = run_calls t"
  "setenv_calls (connecting_log host port user cmd # t) = setenv_calls t"
  "dial_configs (connecting_log host port user cmd # t) = dial_configs t"
  "\<not> is_run (connecting_log host port user cmd)"
  by (simp_all add: connecting_log_def)

lemma copy_tasks_append: "copy_tasks (a @ b) = copy_tasks a @ copy_tasks b"
  by (induction a rule: copy_tasks.induct) simp_all

lemma key_event_copy: "list_all key_event t \<Longrightarrow> copy_tasks t = []"
  by (induction t rule: copy_tasks.induct) simp_all

lemma env_event_copy: "list_all (env_event s) t \<Longrightarrow> copy_tasks t = []"
  by (induction t rule: copy_tasks.induct) simp_all

lemma after_run_split: "run_calls pre = [] \<Longrightarrow> after_run (pre @ EvRun s c r # post) = post"
  unfolding after_run_def
  by (induction pre rule: run_calls.induct) simp_all

lemma setup_events_copy:
  "copy_tasks (setup_events s stdin stdout stderr)
     = [(stdin, OsStdin), (OsStdout, stdout), (OsStderr, stderr)]"
  by (simp add: setup_events_def)

lemma setup_events_run: "run_calls (setup_events s stdin stdout stderr) = []"
  by (simp add: setup_events_def)

lemma run_result_simps:
  "run_result cmd None = None"
  "run_result cmd (Some err) = Some (Errorf (''Failed to run command: '' @ cmd @ '': %v'') [Err err])"
  by (simp_all add: run_result_def)


section \<open>The parts of the function\<close>

lemma PublicKeyFile_events:
  "PublicKeyFile L file w = (auth, tk, w1) \<Longrightarrow> list_all key_event tk"
  by (auto simp: PublicKeyFile_def split: prod.splits sum.splits)

lemma setenv_loop_events:
  "setenv_loop L s envVars w = (r, t, w1) \<Longrightarrow> list_all (env_event s) t"
  by (induction L s envVars w arbitrary: r t w1 rule: setenv_loop.induct)
     (auto split: prod.splits option.splits)

lemma setenv_loop_ok:
  "setenv_loop L s envVars w = (None, t, w1) \<Longrightarrow>
     setenv_calls t = map (\<lambda>(n, v). (s, n, v, None)) envVars"
  by (induction L s envVars w arbitrary: t w1 rule: setenv_loop.induct)
     (auto split: prod.splits option.splits)

lemma setenv_loop_failed:
  "setenv_loop L s envVars w = (r, t, w1) \<Longrightarrow> EvSetenv s' n v (Some err) \<in> set t \<Longrightarrow>
     r = Some (setenv_error n v err)"
  by (induction L s envVars w arbitrary: r t w1 rule: setenv_loop.induct)
     (auto split: prod.splits option.splits)

lemma session_body_cases:
  assumes "session_body L s cmd envVars w = (r, t)"
  shows "(r \<noteq> None \<and> list_all (setup_event s) t)
       \<or> (\<exists>stdin stdout stderr te w7 w8 err.
             t = setup_events s stdin stdout stderr @ te
           \<and> setenv_loop L s envVars w7 = (Some err, te, w8) \<and> r = Some err)
       \<or> (\<exists>stdin stdout stderr te w7 w8 reply.
             t = setup_events s stdin stdout stderr @ te
                  @ [LogInfo ''Running command %s'' [Str cmd], EvRun s cmd reply]
           \<and> setenv_loop L s envVars w7 = (None, te, w8) \<and> r = run_result cmd reply)"
  using assms unfolding session_body_def Let_def setup_events_def
  by (auto split: prod.splits sum.splits option.splits simp: run_result_simps) blast+

lemma session_body_events:
  assumes "session_body L s cmd envVars w = (r, t)"
  shows "list_all (body_event s) t"
proof -
  have a: "list_all (body_event s) (setup_events s i out e)" for i out e
    by (rule list_all_body_setup [OF setup_events_setup])
  from session_body_cases [OF assms] show ?thesis
  proof (elim disjE exE conjE)
    assume "list_all (setup_event s) t"
    then show ?thesis by (rule list_all_body_setup)
  next
    fix stdin stdout stderr te w7 w8 err
    assume t: "t = setup_events s stdin stdout stderr @ te"
      and l: "setenv_loop L s envVars w7 = (Some err, te, w8)"
    from l have "list_all (body_event s) te"
      by (rule list_all_body_env [OF setenv_loop_events])
    with t a show ?thesis by simp
  next
    fix stdin stdout stderr te w7 w8 reply
    assume t: "t = setup_events s stdin stdout stderr @ te
                 @ [LogInfo ''Running command %s'' [Str cmd], EvRun s cmd reply]"
      and l: "setenv_loop L s envVars w7 = (None, te, w8)"
    from l have "list_all (body_event s) te"
      by (rule list_all_body_env [OF setenv_loop_events])
    with t a show ?thesis by simp
  qed
qed

lemma session_body_setenv_failed:
  assumes "session_body L s cmd envVars w = (r, t)"
    and m: "EvSetenv s' n v (Some err) \<in> set t"
  shows "r = Some (setenv_error n v err) \<and> run_calls t = []"
proof -
  note su = setup_events_setup
  from session_body_cases [OF assms(1)] show ?thesis
  proof (elim disjE exE conjE)
    assume "list_all (setup_event s) t"
    with m show ?thesis by (simp add: setup_event_no_setenv)
  next
    fix stdin stdout stderr te w7 w8 e
    assume t: "t = setup_events s stdin stdout stderr @ te"
      and l: "setenv_loop L s envVars w7 = (Some e, te, w8)" and r: "r = Some e"
    from m t have "EvSetenv s' n v (Some err) \<in> set te"
      by (simp add: setup_event_no_setenv [OF su])
    with l have "Some e = Some (setenv_error n v err)" by (rule setenv_loop_failed)
    moreover have "run_calls t = []"
      using t by (simp add: run_calls_append setup_event_run [OF su]
          env_event_run [OF setenv_loop_events [OF l]])
    ultimately show ?thesis using r by simp
  next
    fix stdin stdout stderr te w7 w8 reply
    assume t: "t = setup_events s stdin stdout stderr @ te
                 @ [LogInfo ''Running command %s'' [Str cmd], EvRun s cmd reply]"
      and l: "setenv_loop L s envVars w7 = (None, te, w8)"
    from m t have "EvSetenv s' n v (Some err) \<in> set te"
      by (simp add: setup_event_no_setenv [OF su])
    with l have "None = Some (setenv_error n v err)" by (rule setenv_loop_failed)
    then show ?thesis by simp
  qed
qed

lemma session_body_ran:
  assumes "session_body L s cmd envVars w = (r, t)"
    and m: "EvRun s' c reply \<in> set t"
  shows "s' = s \<and> c = cmd \<and> r = run_result cmd reply
       \<and> (\<exists>pre. t = pre @ [EvRun s cmd reply] \<and> list_all (body_event s) pre \<and> run_calls pre = []
             \<and> setenv_calls pre = map (\<lambda>(n, v). (s, n, v, None)) envVars)"
proof -
  note su = setup_events_setup
  from session_body_cases [OF assms(1)] show ?thesis
  proof (elim disjE exE conjE)
    assume "list_all (setup_event s) t"
    with m show ?thesis by (simp add: setup_event_no_run)
  next
    fix stdin stdout stderr te w7 w8 e
    assume t: "t = setup_events s stdin stdout stderr @ te"
      and l: "setenv_loop L s envVars w7 = (Some e, te, w8)"
    from m t show ?thesis
      by (simp add: setup_event_no_run [OF su] env_event_no_run [OF setenv_loop_events [OF l]])
  next
    fix stdin stdout stderr te w7 w8 rep
    assume t: "t = setup_events s stdin stdout stderr @ te
                 @ [LogInfo ''Running command %s'' [Str cmd], EvRun s cmd rep]"
      and l: "setenv_loop L s envVars w7 = (None, te, w8)" and r: "r = run_result cmd rep"
    note ev = setenv_loop_events [OF l]
    let ?pre = "setup_events s stdin stdout stderr @ te @ [LogInfo ''Running command %s'' [Str cmd]]"
    from m t have eq: "s' = s \<and> c = cmd \<and> reply = rep"
      by (simp add: setup_event_no_run [OF su] env_event_no_run [OF ev])
    have "t = ?pre @ [EvRun s cmd rep]" using t by simp
    moreover have "list_all (body_event s) ?pre"
      by (simp add: list_all_body_setup [OF su] list_all_body_env [OF ev])
    moreover have "run_calls ?pre = []"
      by (simp add: run_calls_append setup_event_run [OF su] env_event_run [OF ev])
    moreover have "setenv_calls ?pre = map (\<lambda>(n, v). (s, n, v, None)) envVars"
      by (simp add: setenv_calls_append setup_event_setenv [OF su] setenv_loop_ok [OF l])
    ultimately show ?thesis using eq r by blast
  qed
qed

lemma session_body_ran_shape:
  assumes "session_body L s cmd envVars w = (r, t)"
    and m: "EvRun s' c reply \<in> set t"
  shows "\<exists>stdin stdout stderr te.
           t = setup_events s stdin stdout stderr @ te
                 @ [LogInfo ''Running command %s'' [Str cmd], EvRun s cmd reply]
         \<and> list_all (env_event s) te"
proof -
  note su = setup_events_setup
  from session_body_cases [OF assms(1)] show ?thesis
  proof (elim disjE exE conjE)
    assume "list_all (setup_event s) t"
    with m show ?thesis by (simp add: setup_event_no_run)
  next
    fix stdin stdout stderr te w7 w8 e
    assume t: "t = setup_events s stdin stdout stderr @ te"
      and l: "setenv_loop L s envVars w7 = (Some e, te, w8)"
    from m t show ?thesis
      by (simp add: setup_event_no_run [OF su] env_event_no_run [OF setenv_loop_events [OF l]])
  next
    fix stdin stdout stderr te w7 w8 rep
    assume t: "t = setup_events s stdin stdout stderr @ te
                 @ [LogInfo ''Running command %s'' [Str cmd], EvRun s cmd rep]"
      and l: "setenv_loop L s envVars w7 = (None, te, w8)"
    note ev = setenv_loop_events [OF l]
    from m t have "reply = rep"
      by (simp add: setup_event_no_run [OF su] env_event_no_run [OF ev])
    with t ev show ?thesis by blast
  qed
qed

lemma session_body_pty:
  assumes "session_body L s cmd envVars w = (r, t)"
  shows "\<exists>reply rest. t = EvRequestPty s ''xterm'' 80 40 modes reply # rest
           \<and> pty_requests rest = []
           \<and> (\<forall>err. reply = Some err \<longrightarrow>
                 rest = [] \<and> r = Some (Errorf ''Request for pseudo terminal failed: %s'' [Err err]))"
  using assms unfolding session_body_def Let_def
  by (auto split: prod.splits sum.splits option.splits
      simp: pty_requests_append dest!: setenv_loop_events dest: env_event_pty)

lemma RemoteSSHCommand_empty: 
  "RemoteSSHCommand L user [] host port cmd envVars w = (res, tr) \<Longrightarrow> tr = []"
  by (simp add: RemoteSSHCommand_def)

lemma RemoteSSHCommand_elim:
  assumes "RemoteSSHCommand L user privateKey host port cmd envVars w = (res, tr)"
    and "privateKey \<noteq> []"
    and "PublicKeyFile L privateKey w = (auth, tk, w1)"
    and "config = \<lparr>User = user, Auth = [auth], Timeout = 0\<rparr>"
    and "t0 = connecting_log host port user cmd # tk"
    and "hostPort = JoinHostPort L host port"
  obtains
    (dial_failed) err where
      "tr = t0 @ [EvDial ''tcp'' hostPort config (Inl err)]"
      "res = Some (Errorf ''Failed to dial: %s'' [Err err])"
  | (session_failed) connection err where
      "tr = t0 @ [EvDial ''tcp'' hostPort config (Inr connection), EvNewSession connection (Inl err)]"
      "res = Some (Errorf ''Failed to create session: %s'' [Err err])"
  | (session) connection session w3 t where
      "tr = t0 @ [EvDial ''tcp'' hostPort config (Inr connection), EvNewSession connection (Inr session)]
              @ t @ [EvClose session]"
      "session_body L session cmd envVars w3 = (res, t)"
  using assms unfolding RemoteSSHCommand_def Let_def connecting_log_def
  by (auto split: prod.splits sum.splits option.splits)

lemma RemoteSSHCommand_ran:
  assumes "RemoteSSHCommand L user privateKey host port cmd envVars w = (res, tr)"
    and "EvRun session c reply \<in> set tr"
  shows "privateKey \<noteq> [] \<and> c = cmd \<and> res = run_result cmd reply
       \<and> (\<exists>connection pre.
             tr = connecting_log host port user cmd # fst (snd (PublicKeyFile L privateKey w))
                  @ [EvDial ''tcp'' (JoinHostPort L host port)
                       \<lparr>User = user, Auth = [fst (PublicKeyFile L privateKey w)], Timeout = 0\<rparr>
                       (Inr connection),
                     EvNewSession connection (Inr session)]
                  @ pre @ [EvRun session cmd reply, EvClose session]
           \<and> list_all (body_event session) pre \<and> run_calls pre = []
           \<and> setenv_calls pre = map (\<lambda>(n, v). (session, n, v, None)) envVars)"
proof (cases "privateKey = []")
  case True
  with assms(1) have "tr = []" by (simp add: RemoteSSHCommand_empty)
  with assms(2) show ?thesis by simp
next
  case False
  obtain auth tk w1 where pk: "PublicKeyFile L privateKey w = (auth, tk, w1)"
    by (cases "PublicKeyFile L privateKey w") 
  note k = PublicKeyFile_events [OF pk]
  from assms(1) False pk refl refl refl show ?thesis
  proof (cases rule: RemoteSSHCommand_elim)
    case (dial_failed e)
    with assms(2) show ?thesis by (simp add: key_event_no_run [OF k])
  next
    case (session_failed c e)
    with assms(2) show ?thesis by (simp add: key_event_no_run [OF k])
  next
    case (session cn s w3 t)
    from assms(2) session(1) have m: "EvRun session c reply \<in> set t"
      by (simp add: key_event_no_run [OF k])
    from session_body_ran [OF session(2) m] obtain pre where
      eq: "session = s" "c = cmd" "res = run_result cmd reply"
      and pre: "t = pre @ [EvRun s cmd reply]" "list_all (body_event s) pre" "run_calls pre = []"
        "setenv_calls pre = map (\<lambda>(n, v). (s, n, v, None)) envVars"
      by blast
    from session(1) pre(1) pk eq(1)
    have "tr = connecting_log host port user cmd # fst (snd (PublicKeyFile L privateKey w))
                  @ [EvDial ''tcp'' (JoinHostPort L host port)
                       \<lparr>User = user, Auth = [fst (PublicKeyFile L privateKey w)], Timeout = 0\<rparr>
                       (Inr cn),
                     EvNewSession cn (Inr session)]
                  @ pre @ [EvRun session cmd reply, EvClose session]"
      by simp
    with pre(2-4) eq False show ?thesis by blast
  qed
qed

lemma RemoteSSHCommand_pty_first:
  assumes "RemoteSSHCommand L user privateKey host port cmd envVars w = (res, tr)"
    and "EvNewSession connection (Inr session) \<in> set tr"
  shows "\<exists>pre reply rest.
           tr = pre @ EvRequestPty session ''xterm'' 80 40 modes reply # rest
         \<and> setenv_calls pre = [] \<and> run_calls pre = [] \<and> pty_requests pre = []
         \<and> pty_requests rest = []
         \<and> (\<forall>err. reply = Some err \<longrightarrow>
               res = Some (Errorf ''Request for pseudo terminal failed: %s'' [Err err])
             \<and> setenv_calls tr = [] \<and> run_calls tr = [])"
proof (cases "privateKey = []")
  case True
  with assms(1) have "tr = []" by (simp add: RemoteSSHCommand_empty)
  with assms(2) show ?thesis by simp
next
  case False
  obtain auth tk w1 where pk: "PublicKeyFile L privateKey w = (auth, tk, w1)"
    by (cases "PublicKeyFile L privateKey w") 
  note k = PublicKeyFile_events [OF pk]
  note ks = key_event_no_session [OF k] key_event_run [OF k] key_event_setenv [OF k]
    key_event_pty [OF k]
  from assms(1) False pk refl refl refl show ?thesis
  proof (cases rule: RemoteSSHCommand_elim)
    case (dial_failed e)
    with assms(2) show ?thesis by (simp add: ks)
  next
    case (session_failed c e)
    with assms(2) show ?thesis by (simp add: ks)
  next
    case (session c s w3 t)
    note b = session_body_events [OF session(2)]
    from assms(2) session(1) have eq: "connection = c" "session = s"
      by (simp_all add: ks body_event_no_session [OF b])
    from session_body_pty [OF session(2)] obtain reply rest where
      t: "t = EvRequestPty s ''xterm'' 80 40 modes reply # rest" and rest: "pty_requests rest = []"
      and fail: "\<And>err. reply = Some err \<Longrightarrow>
                 rest = [] \<and> res = Some (Errorf ''Request for pseudo terminal failed: %s'' [Err err])"
      by blast
    let ?pre = "connecting_log host port user cmd # tk
                 @ [EvDial ''tcp'' (JoinHostPort L host port)
                      \<lparr>User = user, Auth = [auth], Timeout = 0\<rparr> (Inr c),
                    EvNewSession c (Inr s)]"
    have 1: "tr = ?pre @ EvRequestPty session ''xterm'' 80 40 modes reply # (rest @ [EvClose s])"
      using session(1) t eq by simp
    have 2: "setenv_calls ?pre = []" "run_calls ?pre = []" "pty_requests ?pre = []"
      by (simp_all add: setenv_calls_append run_calls_append pty_requests_append ks
          connecting_log_def)
    have 3: "pty_requests (rest @ [EvClose s]) = []"
      using rest by (simp add: pty_requests_append)
    have 4: "reply = Some err \<Longrightarrow>
               res = Some (Errorf ''Request for pseudo terminal failed: %s'' [Err err])
             \<and> setenv_calls tr = [] \<and> run_calls tr = []" for err
      using fail [of err] 1 2 by (simp add: setenv_calls_append run_calls_append)
    from 1 2 3 4 show ?thesis by blast
  qed
qed


lemmas eval_defs = RemoteSSHCommand_def lib_ok_def PublicKeyFile_def session_body_def before_run_def
  lib_dial_fails_def lib_session_fails_def lib_key_missing_def lib_key_garbled_def
  lib_session_breaks_def after_run_def

section \<open>The immediate return on an empty key path\<close>

text \<open>
  C2. A call of \<open>RemoteSSHCommand\<close> whose \<open>privateKey\<close> is the empty string returns the
  error "Could not find PrivateKey for entry <host>" with an empty transcript: no file is
  read, nothing is dialled, nothing is tried again.
\<close>

theorem RemoteSSHCommand_empty_key:
  "RemoteSSHCommand L user [] host port cmd envVars w =
     (Some (Errorf ''Could not find PrivateKey for entry %s'' [Str host]), [])"
  by (simp add: RemoteSSHCommand_def)

section \<open>The dial\<close>

text \<open>
  C3, as the code has it. \<open>RemoteSSHCommand\<close> dials once when \<open>privateKey\<close> is not empty
  and never otherwise, and the configuration it dials with has \<open>Timeout\<close> zero: the code
  sets no connect timeout, so nothing in it bounds the time the dial may take.
\<close>

theorem dial_without_timeout:
  "map Timeout (dial_configs (snd (RemoteSSHCommand L user privateKey host port cmd envVars w)))
     = (if privateKey = [] then [] else [0])"
proof (cases "privateKey = []")
  case True
  then show ?thesis by (simp add: RemoteSSHCommand_def)
next
  case False
  obtain res tr where r: "RemoteSSHCommand L user privateKey host port cmd envVars w = (res, tr)"
    by (cases "RemoteSSHCommand L user privateKey host port cmd envVars w")
  obtain auth tk w1 where pk: "PublicKeyFile L privateKey w = (auth, tk, w1)"
    by (cases "PublicKeyFile L privateKey w") 
  note k = key_event_dial [OF PublicKeyFile_events [OF pk]]
  from r False pk refl refl refl have "map Timeout (dial_configs tr) = [0]"
  proof (cases rule: RemoteSSHCommand_elim)
    case (dial_failed e)
    then show ?thesis by (simp add: dial_configs_append k)
  next
    case (session_failed c e)
    then show ?thesis by (simp add: dial_configs_append k)
  next
    case (session c s w3 t)
    then show ?thesis
      by (simp add: dial_configs_append k body_event_dial [OF session_body_events [OF session(2)]])
  qed
  with r False show ?thesis by simp
qed

text \<open>
  The statement of C3 fails on a run: the one dial of this call is made with no timeout.
\<close>

theorem dial_timeout_counterexample:
  "\<not> list_all (\<lambda>config. 0 < Timeout config)
       (dial_configs (snd (RemoteSSHCommand lib_ok ''root'' ''/id_rsa'' ''app1'' ''22'' ''uptime'' [] ())))"
  by (simp add: eval_defs)

text \<open>
  C6. When the dial fails, the call returns "Failed to dial: <err>"; when the session cannot
  be created, it returns "Failed to create session: <err>". In both cases the failed call is
  the last thing the function does and no command is run.
\<close>

theorem RemoteSSHCommand_connect_failure:
  assumes "RemoteSSHCommand L user privateKey host port cmd envVars w = (res, tr)"
  shows "(EvDial network addr config (Inl err) \<in> set tr \<longrightarrow>
            res = Some (Errorf ''Failed to dial: %s'' [Err err]) \<and> run_calls tr = []
          \<and> last tr = EvDial network addr config (Inl err))
       \<and> (EvNewSession connection (Inl err) \<in> set tr \<longrightarrow>
            res = Some (Errorf ''Failed to create session: %s'' [Err err]) \<and> run_calls tr = []
          \<and> last tr = EvNewSession connection (Inl err))"
proof (cases "privateKey = []")
  case True
  with assms have "tr = []" by (simp add: RemoteSSHCommand_empty)
  then show ?thesis by simp
next
  case False
  obtain auth tk w1 where pk: "PublicKeyFile L privateKey w = (auth, tk, w1)"
    by (cases "PublicKeyFile L privateKey w") 
  note k = PublicKeyFile_events [OF pk]
  note ks = key_event_run [OF k] key_event_no_dial [OF k] key_event_no_session [OF k]
  from assms False pk refl refl refl show ?thesis
  proof (cases rule: RemoteSSHCommand_elim)
    case (dial_failed e)
    then show ?thesis by (simp add: run_calls_append ks)
  next
    case (session_failed c e)
    then show ?thesis by (simp add: run_calls_append ks)
  next
    case (session c s w3 t)
    note b = session_body_events [OF session(2)]
    from session(1) show ?thesis
      by (simp add: ks body_event_no_dial [OF b] body_event_no_session [OF b])
  qed
qed

theorem connect_failure_witness:
  "EvDial ''tcp'' ''app1:22''
      \<lparr>User = ''root'', Auth = [Some (PublicKeys (Signer 1))], Timeout = 0\<rparr>
      (Inl (LibError ''ssh: handshake failed''))
     \<in> set (snd (RemoteSSHCommand lib_dial_fails ''root'' ''/id_rsa'' ''app1'' ''22'' ''uptime'' [] ()))
   \<and> fst (RemoteSSHCommand lib_dial_fails ''root'' ''/id_rsa'' ''app1'' ''22'' ''uptime'' [] ())
     = Some (Errorf ''Failed to dial: %s'' [Err (LibError ''ssh: handshake failed'')])
   \<and> run_calls (snd (RemoteSSHCommand lib_dial_fails ''root'' ''/id_rsa'' ''app1'' ''22'' ''uptime'' [] ())) = []
   \<and> EvNewSession (Client 1) (Inl (LibError ''ssh: rejected''))
     \<in> set (snd (RemoteSSHCommand lib_session_fails ''root'' ''/id_rsa'' ''app1'' ''22'' ''uptime'' [] ()))
   \<and> fst (RemoteSSHCommand lib_session_fails ''root'' ''/id_rsa'' ''app1'' ''22'' ''uptime'' [] ())
     = Some (Errorf ''Failed to create session: %s'' [Err (LibError ''ssh: rejected'')])
   \<and> run_calls (snd (RemoteSSHCommand lib_session_fails ''root'' ''/id_rsa'' ''app1'' ''22'' ''uptime'' [] ())) = []"
proof -
  let ?R1 = "RemoteSSHCommand lib_dial_fails ''root'' ''/id_rsa'' ''app1'' ''22'' ''uptime'' [] ()"
  let ?R2 = "RemoteSSHCommand lib_session_fails ''root'' ''/id_rsa'' ''app1'' ''22'' ''uptime'' [] ()"
  let ?cfg = "\<lparr>User = ''root'', Auth = [Some (PublicKeys (Signer 1))], Timeout = 0\<rparr>"
  have m1: "EvDial ''tcp'' ''app1:22'' ?cfg (Inl (LibError ''ssh: handshake failed'')) \<in> set (snd ?R1)"
    by (simp add: eval_defs)
  have m2: "EvNewSession (Client 1) (Inl (LibError ''ssh: rejected'')) \<in> set (snd ?R2)"
    by (simp add: eval_defs)
  have p1: "?R1 = (fst ?R1, snd ?R1)" and p2: "?R2 = (fst ?R2, snd ?R2)" by simp_all
  from RemoteSSHCommand_connect_failure [OF p1, of "''tcp''" "''app1:22''" ?cfg
         "LibError ''ssh: handshake failed''"] m1
  have a: "fst ?R1 = Some (Errorf ''Failed to dial: %s'' [Err (LibError ''ssh: handshake failed'')])
         \<and> run_calls (snd ?R1) = []"
    by blast
  from RemoteSSHCommand_connect_failure [OF p2, of _ _ _ "LibError ''ssh: rejected''" "Client 1"] m2
  have b: "fst ?R2 = Some (Errorf ''Failed to create session: %s'' [Err (LibError ''ssh: rejected'')])
         \<and> run_calls (snd ?R2) = []"
    by blast
  from m1 m2 a b show ?thesis by blast
qed

section \<open>The key file\<close>

text \<open>
  C8. When the key file cannot be read, or its contents cannot be parsed, \<open>PublicKeyFile\<close>
  returns \<open>nil\<close> and the error is dropped. \<open>RemoteSSHCommand\<close> does not check for it: for a
  non-empty path it goes on to dial, once, with \<open>nil\<close> as its only auth method, and when
  that dial returns an error, the error returned is the dial's. On a server that answers,
  the library does not return an authentication error for the \<open>nil\<close> method: it calls a
  method of it and the process panics. The bad key file then surfaces as a crash, not as
  the connection or authentication failure of C8; the theorem below is what the function
  does up to the dial, and the panic itself is the library's.
\<close>

theorem PublicKeyFile_drops_error:
  assumes "fst (ReadFile L file w) = Inl e
         \<or> (\<exists>buffer. fst (ReadFile L file w) = Inr buffer \<and> ParsePrivateKey L buffer = Inl e)"
    and "RemoteSSHCommand L user file host port cmd envVars w = (res, tr)"
  shows "fst (PublicKeyFile L file w) = None
       \<and> (file \<noteq> [] \<longrightarrow>
            dial_configs tr = [\<lparr>User = user, Auth = [None], Timeout = 0\<rparr>]
          \<and> (\<exists>reply. EvDial ''tcp'' (JoinHostPort L host port)
                         \<lparr>User = user, Auth = [None], Timeout = 0\<rparr> reply \<in> set tr
                \<and> (\<forall>err. reply = Inl err \<longrightarrow> res = Some (Errorf ''Failed to dial: %s'' [Err err]))))"
proof (rule conjI)
  from assms(1) show none: "fst (PublicKeyFile L file w) = None"
    by (auto simp: PublicKeyFile_def split: prod.splits sum.splits)
  show "file \<noteq> [] \<longrightarrow>
            dial_configs tr = [\<lparr>User = user, Auth = [None], Timeout = 0\<rparr>]
          \<and> (\<exists>reply. EvDial ''tcp'' (JoinHostPort L host port)
                         \<lparr>User = user, Auth = [None], Timeout = 0\<rparr> reply \<in> set tr
                \<and> (\<forall>err. reply = Inl err \<longrightarrow> res = Some (Errorf ''Failed to dial: %s'' [Err err])))"
  proof
    assume ne: "file \<noteq> []"
    obtain auth tk w1 where pk: "PublicKeyFile L file w = (auth, tk, w1)"
      by (cases "PublicKeyFile L file w")
    with none have auth: "auth = None" by simp
    note k = key_event_dial [OF PublicKeyFile_events [OF pk]]
    from assms(2) ne pk refl refl refl 
    show "dial_configs tr = [\<lparr>User = user, Auth = [None], Timeout = 0\<rparr>]
          \<and> (\<exists>reply. EvDial ''tcp'' (JoinHostPort L host port)
                         \<lparr>User = user, Auth = [None], Timeout = 0\<rparr> reply \<in> set tr
                \<and> (\<forall>err. reply = Inl err \<longrightarrow> res = Some (Errorf ''Failed to dial: %s'' [Err err])))"
    proof (cases rule: RemoteSSHCommand_elim)
      case (dial_failed e)
      then show ?thesis using auth by (auto simp: dial_configs_append k)
    next
      case (session_failed c e)
      then show ?thesis using auth by (auto simp: dial_configs_append k)
    next
      case (session c s w3 t)
      then show ?thesis using auth
        by (auto simp: dial_configs_append k body_event_dial [OF session_body_events [OF session(2)]])
    qed
  qed
qed

theorem PublicKeyFile_drops_error_witness:
  "fst (ReadFile lib_key_missing ''/id_rsa'' ()) = Inl (LibError ''open: no such file or directory'')
   \<and> fst (PublicKeyFile lib_key_missing ''/id_rsa'' ()) = None
   \<and> dial_configs (snd (RemoteSSHCommand lib_key_missing ''root'' ''/id_rsa'' ''app1'' ''22'' ''uptime'' [] ()))
     = [\<lparr>User = ''root'', Auth = [None], Timeout = 0\<rparr>]
   \<and> fst (RemoteSSHCommand lib_key_missing ''root'' ''/id_rsa'' ''app1'' ''22'' ''uptime'' [] ())
     = Some (Errorf ''Failed to dial: %s'' [Err (LibError ''dial tcp: connection refused'')])
   \<and> fst (ReadFile lib_key_garbled ''/id_rsa'' ()) = Inr ''KEY''
   \<and> ParsePrivateKey lib_key_garbled ''KEY'' = Inl (LibError ''ssh: no key found'')
   \<and> fst (PublicKeyFile lib_key_garbled ''/id_rsa'' ()) = None
   \<and> dial_configs (snd (RemoteSSHCommand lib_key_garbled ''root'' ''/id_rsa'' ''app1'' ''22'' ''uptime'' [] ()))
     = [\<lparr>User = ''root'', Auth = [None], Timeout = 0\<rparr>]
   \<and> fst (RemoteSSHCommand lib_key_garbled ''root'' ''/id_rsa'' ''app1'' ''22'' ''uptime'' [] ())
     = Some (Errorf ''Failed to dial: %s'' [Err (LibError ''dial tcp: connection refused'')])"
proof -
  let ?R1 = "RemoteSSHCommand lib_key_missing ''root'' ''/id_rsa'' ''app1'' ''22'' ''uptime'' [] ()"
  let ?R2 = "RemoteSSHCommand lib_key_garbled ''root'' ''/id_rsa'' ''app1'' ''22'' ''uptime'' [] ()"
  have h1: "fst (ReadFile lib_key_missing ''/id_rsa'' ()) = Inl (LibError ''open: no such file or directory'')"
    by (simp add: lib_key_missing_def lib_ok_def)
  have h2: "fst (ReadFile lib_key_garbled ''/id_rsa'' ()) = Inr ''KEY''"
    "ParsePrivateKey lib_key_garbled ''KEY'' = Inl (LibError ''ssh: no key found'')"
    by (simp_all add: lib_key_garbled_def lib_ok_def)
  have r: "fst ?R1 = Some (Errorf ''Failed to dial: %s'' [Err (LibError ''dial tcp: connection refused'')])"
    "fst ?R2 = Some (Errorf ''Failed to dial: %s'' [Err (LibError ''dial tcp: connection refused'')])"
    by (simp_all add: eval_defs)
  have p1: "?R1 = (fst ?R1, snd ?R1)" and p2: "?R2 = (fst ?R2, snd ?R2)" by simp_all
  from h1 have d1: "fst (ReadFile lib_key_missing ''/id_rsa'' ()) = Inl (LibError ''open: no such file or directory'')
         \<or> (\<exists>buffer. fst (ReadFile lib_key_missing ''/id_rsa'' ()) = Inr buffer
               \<and> ParsePrivateKey lib_key_missing buffer = Inl (LibError ''open: no such file or directory''))"
    by simp
  from h2 have d2: "fst (ReadFile lib_key_garbled ''/id_rsa'' ()) = Inl (LibError ''ssh: no key found'')
         \<or> (\<exists>buffer. fst (ReadFile lib_key_garbled ''/id_rsa'' ()) = Inr buffer
               \<and> ParsePrivateKey lib_key_garbled buffer = Inl (LibError ''ssh: no key found''))"
    by simp
  from PublicKeyFile_drops_error [OF d1 p1] PublicKeyFile_drops_error [OF d2 p2] h1 h2 r
  show ?thesis by simp
qed

section \<open>The environment and the command\<close>

text \<open>
  C4, as the code has it. In a call that runs the command, the connection was dialled on
  \<open>tcp\<close> at \<open>JoinHostPort(host, port)\<close> with the user and the auth method of the key file,
  the session the command runs on was created on that connection, and the variables set
  before the command are exactly the entries of \<open>envVars\<close>, each accepted, on that session.
  Nothing else is set: the function adds no variable of its own.
\<close>

theorem environment_before_command:
  assumes "RemoteSSHCommand L user privateKey host port cmd envVars w = (res, tr)"
    and "EvRun session c reply \<in> set tr"
  shows "(\<exists>connection.
            EvDial ''tcp'' (JoinHostPort L host port)
              \<lparr>User = user, Auth = [fst (PublicKeyFile L privateKey w)], Timeout = 0\<rparr>
              (Inr connection) \<in> set tr
          \<and> EvNewSession connection (Inr session) \<in> set tr)
       \<and> setenv_calls (before_run tr) = map (\<lambda>(n, v). (session, n, v, None)) envVars
       \<and> setenv_calls tr = setenv_calls (before_run tr)"
proof -
  let ?tk = "fst (snd (PublicKeyFile L privateKey w))"
  let ?cfg = "\<lparr>User = user, Auth = [fst (PublicKeyFile L privateKey w)], Timeout = 0\<rparr>"
  from RemoteSSHCommand_ran [OF assms] obtain connection pre where
    tr: "tr = (connecting_log host port user cmd # ?tk
                  @ [EvDial ''tcp'' (JoinHostPort L host port) ?cfg (Inr connection),
                     EvNewSession connection (Inr session)]
                  @ pre) @ EvRun session cmd reply # [EvClose session]"
    and pre: "run_calls pre = []"
      "setenv_calls pre = map (\<lambda>(n, v). (session, n, v, None)) envVars"
    by auto
  have k: "list_all key_event ?tk"
    by (rule PublicKeyFile_events [of L privateKey w "fst (PublicKeyFile L privateKey w)" _ 
          "snd (snd (PublicKeyFile L privateKey w))"]) simp
  let ?pre = "connecting_log host port user cmd # ?tk
                  @ [EvDial ''tcp'' (JoinHostPort L host port) ?cfg (Inr connection),
                     EvNewSession connection (Inr session)] @ pre"
  have r: "run_calls ?pre = []"
    using pre(1) k by (simp add: run_calls_append key_event_run)
  have b: "before_run tr = ?pre"
    unfolding tr by (rule before_run_split [OF r])
  have s: "setenv_calls ?pre = map (\<lambda>(n, v). (session, n, v, None)) envVars"
    using pre(2) k by (simp add: setenv_calls_append key_event_setenv)
  have "setenv_calls tr = setenv_calls ?pre"
    unfolding tr by (simp add: setenv_calls_append)
  moreover have "EvDial ''tcp'' (JoinHostPort L host port) ?cfg (Inr connection) \<in> set tr"
    "EvNewSession connection (Inr session) \<in> set tr"
    unfolding tr by simp_all
  ultimately show ?thesis using b s by auto
qed

theorem environment_before_command_witness:
  "EvRun (Session 1) ''uptime'' None
     \<in> set (snd (RemoteSSHCommand lib_ok ''root'' ''/id_rsa'' ''app1'' ''22'' ''uptime''
                  [(''A'', ''1''), (''B'', ''2'')] ()))
   \<and> (\<exists>connection.
         EvDial ''tcp'' ''app1:22''
           \<lparr>User = ''root'', Auth = [Some (PublicKeys (Signer 1))], Timeout = 0\<rparr> (Inr connection)
         \<in> set (snd (RemoteSSHCommand lib_ok ''root'' ''/id_rsa'' ''app1'' ''22'' ''uptime''
                      [(''A'', ''1''), (''B'', ''2'')] ()))
       \<and> EvNewSession connection (Inr (Session 1))
         \<in> set (snd (RemoteSSHCommand lib_ok ''root'' ''/id_rsa'' ''app1'' ''22'' ''uptime''
                      [(''A'', ''1''), (''B'', ''2'')] ())))
   \<and> setenv_calls (before_run (snd (RemoteSSHCommand lib_ok ''root'' ''/id_rsa'' ''app1'' ''22'' ''uptime''
                  [(''A'', ''1''), (''B'', ''2'')] ())))
     = [(Session 1, ''A'', ''1'', None), (Session 1, ''B'', ''2'', None)]
   \<and> setenv_calls (snd (RemoteSSHCommand lib_ok ''root'' ''/id_rsa'' ''app1'' ''22'' ''uptime''
                  [(''A'', ''1''), (''B'', ''2'')] ()))
     = [(Session 1, ''A'', ''1'', None), (Session 1, ''B'', ''2'', None)]"
proof -
  let ?R = "RemoteSSHCommand lib_ok ''root'' ''/id_rsa'' ''app1'' ''22'' ''uptime''
                  [(''A'', ''1''), (''B'', ''2'')] ()"
  have m: "EvRun (Session 1) ''uptime'' None \<in> set (snd ?R)"
    by (simp add: eval_defs)
  have pk: "fst (PublicKeyFile lib_ok ''/id_rsa'' ()) = Some (PublicKeys (Signer 1))"
    and jp: "JoinHostPort lib_ok ''app1'' ''22'' = ''app1:22''"
    by (simp_all add: eval_defs)
  from environment_before_command [OF surjective_pairing m] m show ?thesis
    unfolding pk jp by simp
qed

text \<open>
  The statement of C4 fails on a run: with an empty \<open>envVars\<close> the command is run and no
  variable at all has been set, so nothing names the worker or the host it claimed.
\<close>

theorem no_identity_variable_counterexample:
  "run_calls (snd (RemoteSSHCommand lib_ok ''root'' ''/id_rsa'' ''app1'' ''22'' ''uptime'' [] ()))
     = [(Session 1, ''uptime'', None)]
   \<and> setenv_calls (snd (RemoteSSHCommand lib_ok ''root'' ''/id_rsa'' ''app1'' ''22'' ''uptime'' [] ())) = []"
  by (simp add: eval_defs)




text \<open>
  C9. When a \<open>Setenv\<close> fails, the call returns the "Could not set environment variable"
  error for that variable and no command is run; and when the command is run, every entry
  of \<open>envVars\<close> has been set before it, with success.
\<close>

theorem setenv_failure_stops:
  assumes "RemoteSSHCommand L user privateKey host port cmd envVars w = (res, tr)"
  shows "(EvSetenv session envName envValue (Some err) \<in> set tr \<longrightarrow>
            res = Some (setenv_error envName envValue err) \<and> run_calls tr = [])
       \<and> (EvRun session c reply \<in> set tr \<longrightarrow>
            setenv_calls (before_run tr) = map (\<lambda>(n, v). (session, n, v, None)) envVars)"
proof (rule conjI; rule impI)
  assume m: "EvSetenv session envName envValue (Some err) \<in> set tr"
  show "res = Some (setenv_error envName envValue err) \<and> run_calls tr = []"
  proof (cases "privateKey = []")
    case True
    with assms have "tr = []" by (simp add: RemoteSSHCommand_empty)
    with m show ?thesis by simp
  next
    case False
    obtain auth tk w1 where pk: "PublicKeyFile L privateKey w = (auth, tk, w1)"
      by (cases "PublicKeyFile L privateKey w") 
    note k = PublicKeyFile_events [OF pk]
    from assms False pk refl refl refl show ?thesis
    proof (cases rule: RemoteSSHCommand_elim)
      case (dial_failed e)
      with m show ?thesis by (simp add: key_event_no_setenv [OF k])
    next
      case (session_failed c e)
      with m show ?thesis by (simp add: key_event_no_setenv [OF k])
    next
      case (session cn s w3 t)
      from m session(1) have "EvSetenv session envName envValue (Some err) \<in> set t"
        by (simp add: key_event_no_setenv [OF k])
      from session_body_setenv_failed [OF session(2) this] session(1)
      show ?thesis by (simp add: run_calls_append key_event_run [OF k])
    qed
  qed
next
  assume "EvRun session c reply \<in> set tr"
  from RemoteSSHCommand_ran [OF assms this] obtain connection pre where
    tr: "tr = (connecting_log host port user cmd # fst (snd (PublicKeyFile L privateKey w))
                  @ [EvDial ''tcp'' (JoinHostPort L host port)
                       \<lparr>User = user, Auth = [fst (PublicKeyFile L privateKey w)], Timeout = 0\<rparr>
                       (Inr connection),
                     EvNewSession connection (Inr session)]
                  @ pre) @ EvRun session cmd reply # [EvClose session]"
    and pre: "run_calls pre = []"
      "setenv_calls pre = map (\<lambda>(n, v). (session, n, v, None)) envVars"
    by auto
  have k: "list_all key_event (fst (snd (PublicKeyFile L privateKey w)))"
    by (rule PublicKeyFile_events [of L privateKey w "fst (PublicKeyFile L privateKey w)" _ 
          "snd (snd (PublicKeyFile L privateKey w))"]) simp
  have "before_run tr = connecting_log host port user cmd # fst (snd (PublicKeyFile L privateKey w))
                  @ [EvDial ''tcp'' (JoinHostPort L host port)
                       \<lparr>User = user, Auth = [fst (PublicKeyFile L privateKey w)], Timeout = 0\<rparr>
                       (Inr connection),
                     EvNewSession connection (Inr session)]
                  @ pre"
    unfolding tr using pre(1) k
    by (intro before_run_split) (simp add: run_calls_append key_event_run)
  then show "setenv_calls (before_run tr) = map (\<lambda>(n, v). (session, n, v, None)) envVars"
    using pre(2) k by (simp add: setenv_calls_append key_event_setenv)
qed

theorem setenv_failure_stops_witness:
  "EvSetenv (Session 1) ''DENIED'' ''x'' (Some (LibError ''ssh: setenv failed''))
     \<in> set (snd (RemoteSSHCommand lib_ok ''root'' ''/id_rsa'' ''app1'' ''22'' ''uptime''
                  [(''A'', ''1''), (''DENIED'', ''x''), (''B'', ''2'')] ()))
   \<and> fst (RemoteSSHCommand lib_ok ''root'' ''/id_rsa'' ''app1'' ''22'' ''uptime''
                  [(''A'', ''1''), (''DENIED'', ''x''), (''B'', ''2'')] ())
     = Some (setenv_error ''DENIED'' ''x'' (LibError ''ssh: setenv failed''))
   \<and> run_calls (snd (RemoteSSHCommand lib_ok ''root'' ''/id_rsa'' ''app1'' ''22'' ''uptime''
                  [(''A'', ''1''), (''DENIED'', ''x''), (''B'', ''2'')] ())) = []
   \<and> EvRun (Session 1) ''uptime'' None
     \<in> set (snd (RemoteSSHCommand lib_ok ''root'' ''/id_rsa'' ''app1'' ''22'' ''uptime''
                  [(''A'', ''1''), (''B'', ''2'')] ()))
   \<and> setenv_calls (before_run (snd (RemoteSSHCommand lib_ok ''root'' ''/id_rsa'' ''app1'' ''22'' ''uptime''
                  [(''A'', ''1''), (''B'', ''2'')] ())))
     = [(Session 1, ''A'', ''1'', None), (Session 1, ''B'', ''2'', None)]"
proof -
  let ?R1 = "RemoteSSHCommand lib_ok ''root'' ''/id_rsa'' ''app1'' ''22'' ''uptime''
                  [(''A'', ''1''), (''DENIED'', ''x''), (''B'', ''2'')] ()"
  let ?R2 = "RemoteSSHCommand lib_ok ''root'' ''/id_rsa'' ''app1'' ''22'' ''uptime''
                  [(''A'', ''1''), (''B'', ''2'')] ()"
  have m1: "EvSetenv (Session 1) ''DENIED'' ''x'' (Some (LibError ''ssh: setenv failed'')) \<in> set (snd ?R1)"
    by (simp add: eval_defs)
  have m2: "EvRun (Session 1) ''uptime'' None \<in> set (snd ?R2)"
    by (simp add: eval_defs)
  have p1: "?R1 = (fst ?R1, snd ?R1)" and p2: "?R2 = (fst ?R2, snd ?R2)" by simp_all
  from setenv_failure_stops [OF p1, of "Session 1" "''DENIED''" "''x''" "LibError ''ssh: setenv failed''"] m1
  have a: "fst ?R1 = Some (setenv_error ''DENIED'' ''x'' (LibError ''ssh: setenv failed''))
         \<and> run_calls (snd ?R1) = []"
    by blast
  from setenv_failure_stops [OF p2, of "Session 1" _ _ _ "''uptime''" None] m2
  have b: "setenv_calls (before_run (snd ?R2))
           = map (\<lambda>(n, v). (Session 1, n, v, None)) [(''A'', ''1''), (''B'', ''2'')]"
    by blast
  from m1 m2 a b show ?thesis by simp
qed

section \<open>The copies of the streams\<close>

text \<open>
  C7, as the code has it. In a call that runs the command, the three pipes of the session
  were obtained and three goroutines were started before \<open>Run\<close>, in this order:
  \<open>io.Copy\<close> from \<open>os.Stdin\<close> into the stdin pipe, from the stdout pipe into \<open>os.Stdout\<close>,
  from the stderr pipe into \<open>os.Stderr\<close>; one copy for each stream and no other goroutine.
  The function does not join them: after \<open>Run\<close> it only runs the deferred \<open>Close\<close> and
  returns.
\<close>

theorem copies_started_not_joined:
  assumes "RemoteSSHCommand L user privateKey host port cmd envVars w = (res, tr)"
    and "EvRun session c reply \<in> set tr"
  shows "\<exists>stdin stdout stderr.
           EvStdinPipe session (Inr stdin) \<in> set (before_run tr)
         \<and> EvStdoutPipe session (Inr stdout) \<in> set (before_run tr)
         \<and> EvStderrPipe session (Inr stderr) \<in> set (before_run tr)
         \<and> copy_tasks (before_run tr) = [(stdin, OsStdin), (OsStdout, stdout), (OsStderr, stderr)]
         \<and> tr = before_run tr @ [EvRun session cmd reply, EvClose session]
         \<and> after_run tr = [EvClose session]"
proof (cases "privateKey = []")
  case True
  with assms(1) have "tr = []" by (simp add: RemoteSSHCommand_empty)
  with assms(2) show ?thesis by simp
next
  case False
  obtain auth tk w1 where pk: "PublicKeyFile L privateKey w = (auth, tk, w1)"
    by (cases "PublicKeyFile L privateKey w") 
  note k = PublicKeyFile_events [OF pk]
  from assms(1) False pk refl refl refl show ?thesis
  proof (cases rule: RemoteSSHCommand_elim)
    case (dial_failed e)
    with assms(2) show ?thesis by (simp add: key_event_no_run [OF k])
  next
    case (session_failed cn e)
    with assms(2) show ?thesis by (simp add: key_event_no_run [OF k])
  next
    case (session cn s w3 t)
    from assms(2) session(1) have m: "EvRun session c reply \<in> set t"
      by (simp add: key_event_no_run [OF k])
    from session_body_ran [OF session(2) m] have eq: "session = s" by simp
    from session_body_ran_shape [OF session(2) m] obtain stdin stdout stderr te where
      t: "t = setup_events s stdin stdout stderr @ te
                 @ [LogInfo ''Running command %s'' [Str cmd], EvRun s cmd reply]"
      and ev: "list_all (env_event s) te"
      by blast
    let ?pre = "connecting_log host port user cmd # tk
                 @ [EvDial ''tcp'' (JoinHostPort L host port)
                      \<lparr>User = user, Auth = [auth], Timeout = 0\<rparr> (Inr cn),
                    EvNewSession cn (Inr s)]
                 @ setup_events s stdin stdout stderr @ te
                 @ [LogInfo ''Running command %s'' [Str cmd]]"
    have tr: "tr = ?pre @ EvRun session cmd reply # [EvClose session]"
      using session(1) t eq by simp
    have r: "run_calls ?pre = []"
      by (simp add: run_calls_append key_event_run [OF k] setup_events_run env_event_run [OF ev])
    have b: "before_run tr = ?pre" unfolding tr by (rule before_run_split [OF r])
    have a: "after_run tr = [EvClose session]" unfolding tr by (rule after_run_split [OF r])
    have c: "copy_tasks ?pre = [(stdin, OsStdin), (OsStdout, stdout), (OsStderr, stderr)]"
      by (simp add: copy_tasks_append key_event_copy [OF k] setup_events_copy
          env_event_copy [OF ev] connecting_log_def)
    have p: "EvStdinPipe session (Inr stdin) \<in> set ?pre"
      "EvStdoutPipe session (Inr stdout) \<in> set ?pre"
      "EvStderrPipe session (Inr stderr) \<in> set ?pre"
      using eq by (simp_all add: setup_events_def)
    have "tr = before_run tr @ [EvRun session cmd reply, EvClose session]"
      unfolding b using tr by simp
    with a b c p show ?thesis by metis
  qed
qed

theorem copies_started_not_joined_witness:
  "EvRun (Session 1) ''uptime'' None
     \<in> set (snd (RemoteSSHCommand lib_ok ''root'' ''/id_rsa'' ''app1'' ''22'' ''uptime'' [(''A'', ''1'')] ()))
   \<and> (\<exists>stdin stdout stderr.
         EvStdinPipe (Session 1) (Inr stdin)
           \<in> set (before_run (snd (RemoteSSHCommand lib_ok ''root'' ''/id_rsa'' ''app1'' ''22'' ''uptime''
                                    [(''A'', ''1'')] ())))
       \<and> EvStdoutPipe (Session 1) (Inr stdout)
           \<in> set (before_run (snd (RemoteSSHCommand lib_ok ''root'' ''/id_rsa'' ''app1'' ''22'' ''uptime''
                                    [(''A'', ''1'')] ())))
       \<and> EvStderrPipe (Session 1) (Inr stderr)
           \<in> set (before_run (snd (RemoteSSHCommand lib_ok ''root'' ''/id_rsa'' ''app1'' ''22'' ''uptime''
                                    [(''A'', ''1'')] ())))
       \<and> copy_tasks (before_run (snd (RemoteSSHCommand lib_ok ''root'' ''/id_rsa'' ''app1'' ''22'' ''uptime''
                                    [(''A'', ''1'')] ())))
         = [(stdin, OsStdin), (OsStdout, stdout), (OsStderr, stderr)])
   \<and> after_run (snd (RemoteSSHCommand lib_ok ''root'' ''/id_rsa'' ''app1'' ''22'' ''uptime'' [(''A'', ''1'')] ()))
     = [EvClose (Session 1)]"
proof -
  let ?R = "RemoteSSHCommand lib_ok ''root'' ''/id_rsa'' ''app1'' ''22'' ''uptime'' [(''A'', ''1'')] ()"
  have m: "EvRun (Session 1) ''uptime'' None \<in> set (snd ?R)"
    by (simp add: eval_defs)
  have p: "?R = (fst ?R, snd ?R)" by simp
  from copies_started_not_joined [OF p m] m show ?thesis by blast
qed

text \<open>
  The statement of C7 fails on a run: the three copies are started, the command runs and
  the call returns \<open>nil\<close> with nothing after \<open>Run\<close> but \<open>Close\<close>. Nothing waits for the
  copies, on session close or anywhere else.
\<close>

theorem copies_not_joined_counterexample:
  "copy_tasks (snd (RemoteSSHCommand lib_ok ''root'' ''/id_rsa'' ''app1'' ''22'' ''uptime'' [] ()))
     = [(Pipe 0, OsStdin), (OsStdout, Pipe 1), (OsStderr, Pipe 2)]
   \<and> after_run (snd (RemoteSSHCommand lib_ok ''root'' ''/id_rsa'' ''app1'' ''22'' ''uptime'' [] ()))
     = [EvClose (Session 1)]
   \<and> fst (RemoteSSHCommand lib_ok ''root'' ''/id_rsa'' ''app1'' ''22'' ''uptime'' [] ()) = None"
  by (simp add: eval_defs)

section \<open>The pseudo-terminal\<close>

text \<open>
  C10. On a reachable host the one pseudo-terminal requested is
  \<open>RequestPty("xterm", 80, 40, modes)\<close>. The library's parameters are \<open>(term, h, w)\<close>, so
  the request is for a height of 80 rows and a width of 40 columns, not for 80 columns by
  40 rows. The rest of C10 holds for every call (\<open>RemoteSSHCommand_pty_first\<close>): the
  request comes before any \<open>Setenv\<close> or \<open>Run\<close>, and when it fails the call returns
  "Request for pseudo terminal failed: <err>" with nothing set and nothing run.
\<close>

theorem pty_request_rows_columns:
  "pty_requests (snd (RemoteSSHCommand lib_ok ''root'' ''/id_rsa'' ''app1'' ''22'' ''uptime'' [] ()))
     = [(''xterm'', 80, 40)]"
  by (simp add: eval_defs)

section \<open>Mutual exclusion of claims\<close>

lemma live_mono: "live T (Suc n) c \<Longrightarrow> live T n c"
  by (auto simp: live_def stale_def)

lemma claimable_not_live: "claimable T n claims h \<Longrightarrow> claims h = Some c \<Longrightarrow> \<not> live T n c"
  by (auto simp: claimable_def live_def)

lemma inv_ok_Tick: "inv_ok T s \<Longrightarrow> inv_ok T (step T inventory s Tick)"
  unfolding inv_ok_def worker_ok_def by (auto split: worker.splits dest: live_mono)

lemma inv_ok_Read: "inv_ok T s \<Longrightarrow> inv_ok T (step T inventory s (Read w))"
  unfolding inv_ok_def worker_ok_def
  by (auto simp: ReadAll_def candidates_def Let_def split: worker.splits
        dest: claimable_not_live)

lemma inv_ok_Crash: "inv_ok T s \<Longrightarrow> inv_ok T (step T inventory s (Crash w))"
  unfolding inv_ok_def worker_ok_def by (auto split: worker.splits)

lemma inv_ok_Try:
  assumes "inv_ok T s"
  shows "inv_ok T (step T inventory s (Try w))"
proof (cases "workers s w")
  case Idle
  with assms show ?thesis by simp
next
  case (Holding h c)
  with assms show ?thesis by simp
next
  case (Trying claims cands)
  from assms have ok: "worker_ok T s v" for v by (simp add: inv_ok_def)
  show ?thesis
  proof (cases cands)
    case Nil
    with Trying have s': "step T inventory s (Try w) = s\<lparr>workers := (workers s)(w := Idle)\<rparr>"
      by simp
    show ?thesis unfolding s' inv_ok_def
    proof
      fix v
      from ok [of v] show "worker_ok T (s\<lparr>workers := (workers s)(w := Idle)\<rparr>) v"
        by (auto simp: worker_ok_def split: worker.splits)
    qed
  next
    case (Cons h rest)
    from ok [of w] Trying Cons
    have cand: "claims x = Some c \<Longrightarrow> x = h \<or> x \<in> set rest \<Longrightarrow> \<not> live T (now s) c" for x c
      by (auto simp: worker_ok_def)
    let ?new = "\<lparr>ownerId = w, state = Claiming, lastHeartbeat = now s\<rparr>"
    show ?thesis
    proof (cases "store s h = claims h")
      case False
      with Trying Cons
      have s': "step T inventory s (Try w) = s\<lparr>workers := (workers s)(w := Trying claims rest)\<rparr>"
        by (simp add: ConditionalWrite_def Let_def)
      show ?thesis unfolding s' inv_ok_def
      proof
        fix v
        from ok [of v] cand
        show "worker_ok T (s\<lparr>workers := (workers s)(w := Trying claims rest)\<rparr>) v"
          by (auto simp: worker_ok_def split: worker.splits)
      qed
    next
      case True
      with Trying Cons
      have s': "step T inventory s (Try w)
                = s\<lparr>store := (store s)(h \<mapsto> ?new), workers := (workers s)(w := Holding h ?new)\<rparr>"
        by (simp add: ConditionalWrite_def Let_def)
      show ?thesis unfolding s' inv_ok_def
      proof
        fix v
        show "worker_ok T (s\<lparr>store := (store s)(h \<mapsto> ?new),
                              workers := (workers s)(w := Holding h ?new)\<rparr>) v"
        proof (cases "v = w")
          case True
          then show ?thesis by (simp add: worker_ok_def)
        next
          case False
          with ok [of v] cand [of h] True show ?thesis
            by (auto simp: worker_ok_def split: worker.splits)
        qed
      qed
    qed
  qed
qed

lemma inv_ok_Report:
  assumes "inv_ok T s"
  shows "inv_ok T (step T inventory s (Report w st))"
proof (cases "workers s w")
  case Idle
  with assms show ?thesis by simp
next
  case (Trying claims cands)
  with assms show ?thesis by simp
next
  case (Holding h c)
  from assms have ok: "worker_ok T s v" for v by (simp add: inv_ok_def)
  from ok [of w] Holding have own: "ownerId c = w" by (simp add: worker_ok_def)
  let ?new = "c\<lparr>state := st, lastHeartbeat := now s\<rparr>"
  show ?thesis
  proof (cases "store s h = Some c")
    case False
    with Holding
    have s': "step T inventory s (Report w st) = s\<lparr>workers := (workers s)(w := Idle)\<rparr>"
      by (simp add: ConditionalWrite_def Let_def)
    show ?thesis unfolding s' inv_ok_def
    proof
      fix v
      from ok [of v] show "worker_ok T (s\<lparr>workers := (workers s)(w := Idle)\<rparr>) v"
        by (auto simp: worker_ok_def split: worker.splits)
    qed
  next
    case True
    with Holding
    have s': "step T inventory s (Report w st)
              = s\<lparr>store := (store s)(h \<mapsto> ?new),
                  workers := (workers s)
                    (w := if st = Claiming \<or> st = Running then Holding h ?new else Idle)\<rparr>"
      by (simp add: ConditionalWrite_def Let_def)
    show ?thesis unfolding s' inv_ok_def
    proof
      fix v
      show "worker_ok T (s\<lparr>store := (store s)(h \<mapsto> ?new),
                  workers := (workers s)
                    (w := if st = Claiming \<or> st = Running then Holding h ?new else Idle)\<rparr>) v"
      proof (cases "v = w")
        case True
        with own show ?thesis by (simp add: worker_ok_def)
      next
        case False
        with ok [of v] True own show ?thesis
          by (auto simp: worker_ok_def split: worker.splits)
      qed
    qed
  qed
qed

lemma inv_ok_step: "inv_ok T s \<Longrightarrow> inv_ok T (step T inventory s a)"
  by (cases a) (simp_all only: inv_ok_Tick inv_ok_Read inv_ok_Try inv_ok_Report inv_ok_Crash)

lemma inv_ok_foldl: "inv_ok T s \<Longrightarrow> inv_ok T (foldl (step T inventory) s acts)"
  by (induction acts arbitrary: s) (simp_all add: inv_ok_step)

lemma inv_ok_exec: "inv_ok T (exec T inventory acts)"
  unfolding exec_def by (rule inv_ok_foldl) (simp add: inv_ok_def worker_ok_def cluster0_def)


text \<open>
  C1. At every point of every schedule, for any workers, any inventory and any staleness
  threshold, two live Claim records for one host are the same record, whether they are
  read from the ClaimStore or held by workers: at most one live Claim exists for a host.
\<close>

theorem claim_mutual_exclusion:
  assumes "s = exec T inventory acts"
    and "store s h = Some c1 \<or> workers s w1 = Holding h c1" and "live T (now s) c1"
    and "store s h = Some c2 \<or> workers s w2 = Holding h c2" and "live T (now s) c2"
  shows "c1 = c2"
proof -
  from assms(1) have "inv_ok T s" by (simp add: inv_ok_exec)
  then have ok: "worker_ok T s v" for v by (simp add: inv_ok_def)
  from assms(2,3) ok [of w1] have "store s h = Some c1" by (auto simp: worker_ok_def)
  moreover from assms(4,5) ok [of w2] have "store s h = Some c2" by (auto simp: worker_ok_def)
  ultimately show ?thesis by simp
qed

theorem claim_mutual_exclusion_witness:
  "store (exec 2 [''app1''] takeover) ''app1''
     = Some \<lparr>ownerId = 2, state = Claiming, lastHeartbeat = 3\<rparr>
   \<and> live 2 (now (exec 2 [''app1''] takeover)) \<lparr>ownerId = 2, state = Claiming, lastHeartbeat = 3\<rparr>
   \<and> workers (exec 2 [''app1''] takeover) 2
     = Holding ''app1'' \<lparr>ownerId = 2, state = Claiming, lastHeartbeat = 3\<rparr>
   \<and> workers (exec 2 [''app1''] takeover) 1
     = Holding ''app1'' \<lparr>ownerId = 1, state = Claiming, lastHeartbeat = 0\<rparr>
   \<and> \<not> live 2 (now (exec 2 [''app1''] takeover)) \<lparr>ownerId = 1, state = Claiming, lastHeartbeat = 0\<rparr>"
proof -
  let ?s = "exec 2 [''app1''] takeover"
  let ?c2 = "\<lparr>ownerId = 2, state = Claiming, lastHeartbeat = 3\<rparr>"
  let ?c1 = "\<lparr>ownerId = 1, state = Claiming, lastHeartbeat = 0\<rparr>"
  have e: "store ?s ''app1'' = Some ?c2" "workers ?s 2 = Holding ''app1'' ?c2"
    "workers ?s 1 = Holding ''app1'' ?c1" "now ?s = 3"
    by (simp_all add: exec_def takeover_def cluster0_def ReadAll_def candidates_def claimable_def
        ConditionalWrite_def stale_def Let_def)
  have l: "live 2 (now ?s) ?c2" by (simp add: e live_def stale_def)
  have "live 2 (now ?s) ?c1 \<Longrightarrow> ?c2 = ?c1"
    using claim_mutual_exclusion [OF refl, of 2 "[''app1'']" takeover "''app1''" ?c2 2 ?c1 1] e l
    by blast
  then have "\<not> live 2 (now ?s) ?c1" by auto
  with e l show ?thesis by simp
qed

end
